theory Spec2Isabelle
  imports Complex_Main
begin

section \<open>Swap bootstrapping of a zero curve: the model of main.cpp\<close>

text \<open>
  The program computes on C++ \<^verbatim>\<open>double\<close>. The model below is the program in exact
  arithmetic: a \<^verbatim>\<open>double\<close> is a \<^typ>\<open>real\<close>, \<^verbatim>\<open>exp\<close> and \<^verbatim>\<open>log\<close> are the real
  exponential and natural logarithm, \<^verbatim>\<open>floor\<close> is the real floor. Rounding, infinities and
  NaN have no counterpart in these definitions, so a statement about them is one about the
  algorithm and not about rounding error. The one function whose result is claimed to
  be a stored value bit for bit, \<^verbatim>\<open>getZeroRate\<close>, is therefore given a second time with
  its arithmetic rounded to binary64 (\<open>getZeroRate_binary64\<close> below). Two places of the source divide by a quantity that can be
  zero (the quote maturity in \<^verbatim>\<open>-log(df_n) / mat\<close> and \<^verbatim>\<open>1.0 + tau_n*S\<close>); HOL gives
  \<open>x / 0 = 0\<close> there, where the machine gives an infinity or a NaN, and the statements
  that depend on such a value exclude these inputs by a hypothesis.
  The loop counter \<^verbatim>\<open>int i\<close> of the bootstrapper is an unbounded integer (it overflows,
  with undefined behaviour, only beyond \<open>2 ^ 31\<close> coupon periods). Console output and CSV
  export are not modelled.
\<close>

subsection \<open>Data objects\<close>

text \<open>\<^verbatim>\<open>class SwapQuote { double _maturity; double _rate; }\<close>\<close>

record SwapQuote =
  maturity :: real
  rate :: real

subsection \<open>The curve object\<close>

text \<open>
  \<^verbatim>\<open>class ZeroCurve { map<double, double> _curveData; }\<close>. A \<^verbatim>\<open>std::map\<close> holds its
  entries in strictly ascending key order; it is modelled by the list of its entries in
  iteration order. An iterator is a position in that list: \<^verbatim>\<open>begin()\<close> is \<open>0\<close>,
  \<^verbatim>\<open>end()\<close> is the length and \<^verbatim>\<open>prev(it)\<close> is \<open>it - 1\<close>.
\<close>

record ZeroCurve =
  curveData :: "(real \<times> real) list"

text \<open>The class invariant of \<^verbatim>\<open>std::map\<close>: keys strictly increasing, hence unique.\<close>

definition map_inv :: "(real \<times> real) list \<Rightarrow> bool" where
  "map_inv xs = sorted_wrt (<) (map fst xs)"

definition curve_inv :: "ZeroCurve \<Rightarrow> bool" where
  "curve_inv c = map_inv (curveData c)"

text \<open>\<^verbatim>\<open>m[k] = v\<close>: insert at the key's place in the order, or overwrite.\<close>

fun map_assign :: "real \<Rightarrow> real \<Rightarrow> (real \<times> real) list \<Rightarrow> (real \<times> real) list" where
  "map_assign k v [] = [(k, v)]"
| "map_assign k v (p # ps) =
     (if k < fst p then (k, v) # p # ps
      else if k = fst p then (k, v) # ps
      else p # map_assign k v ps)"

text \<open>\<^verbatim>\<open>m.count(k)\<close>: the number of entries with key \<open>k\<close> (0 or 1 in a \<^verbatim>\<open>std::map\<close>).\<close>

definition map_count :: "(real \<times> real) list \<Rightarrow> real \<Rightarrow> nat" where
  "map_count xs k = length (filter (\<lambda>p. fst p = k) xs)"

text \<open>\<^verbatim>\<open>m.lower_bound(t)\<close>: the position of the first entry whose key is not less than \<open>t\<close>.\<close>

definition lower_bound :: "(real \<times> real) list \<Rightarrow> real \<Rightarrow> nat" where
  "lower_bound xs t = length (takeWhile (\<lambda>p. fst p < t) xs)"

definition addNode :: "real \<Rightarrow> real \<Rightarrow> ZeroCurve \<Rightarrow> ZeroCurve" where
  "addNode time r c = c\<lparr>curveData := map_assign time r (curveData c)\<rparr>"

text \<open>
  The four return statements of \<^verbatim>\<open>getZeroRate\<close>, under the names of the source's
  comments: the empty curve, Case A (\<^verbatim>\<open>it == end()\<close>), Case B (\<^verbatim>\<open>it == begin()\<close>)
  and Case C (interpolation).
\<close>

datatype lookup_case = EmptyCurve | CaseA | CaseB | CaseC

definition getZeroRate_case :: "ZeroCurve \<Rightarrow> real \<Rightarrow> lookup_case" where
  "getZeroRate_case c t =
     (if curveData c = [] then EmptyCurve
      else let it = lower_bound (curveData c) t in
        if it = length (curveData c) then CaseA
        else if it = 0 then CaseB
        else CaseC)"

definition getZeroRate :: "ZeroCurve \<Rightarrow> real \<Rightarrow> real" where
  "getZeroRate c t =
     (case getZeroRate_case c t of
        EmptyCurve \<Rightarrow> 0
      | CaseA \<Rightarrow> snd (last (curveData c))
      | CaseB \<Rightarrow> snd (curveData c ! lower_bound (curveData c) t)
      | CaseC \<Rightarrow>
          (let it = lower_bound (curveData c) t;
               t1 = fst (curveData c ! (it - 1));
               t2 = fst (curveData c ! it);
               r1 = snd (curveData c ! (it - 1));
               r2 = snd (curveData c ! it)
           in (r2 - r1) / (t2 - t1) * (t - t1) + r1))"

definition getDiscountFactor :: "ZeroCurve \<Rightarrow> real \<Rightarrow> real" where
  "getDiscountFactor c t = (let r = getZeroRate c t in exp (- r * t))"

definition getMaxMaturity :: "ZeroCurve \<Rightarrow> real" where
  "getMaxMaturity c = (if curveData c = [] then 0 else fst (last (curveData c)))"

subsection \<open>The lookup in binary64\<close>

text \<open>
  A \<^verbatim>\<open>double\<close> is an IEEE 754 binary64 number, and every arithmetic operation on
  doubles returns the exact result rounded to the nearest binary64 number, ties to the
  even significand. \<open>round_binary64\<close> is that rounding on the normal range: a significand
  of 53 bits, scaled by the power of two that the magnitude of the value fixes. Overflow
  to infinity and the subnormal range are left out.
\<close>

definition round_half_even :: "real \<Rightarrow> int" where
  "round_half_even x =
     (let n = \<lfloor>x\<rfloor> in
      if x - of_int n < 1 / 2 then n
      else if 1 / 2 < x - of_int n then n + 1
      else if even n then n else n + 1)"

definition round_binary64 :: "real \<Rightarrow> real" where
  "round_binary64 x =
     (if x = 0 then 0
      else let e = \<lfloor>log 2 \<bar>x\<bar>\<rfloor> - 52
           in of_int (round_half_even (x / 2 powr of_int e)) * 2 powr of_int e)"

text \<open>
  \<^verbatim>\<open>getZeroRate\<close> once more, on a curve whose maturities and rates are binary64 numbers.
  Comparisons are exact, and the empty curve, Case A and Case B return a stored number
  as it is. The only arithmetic is the line
  \<^verbatim>\<open>double interpolatedRate = (r2-r1)/(t2-t1) * (t-t1) + r1;\<close> of Case C, whose two
  differences, quotient, third difference, product and sum are rounded one by one.
\<close>

definition getZeroRate_binary64 :: "ZeroCurve \<Rightarrow> real \<Rightarrow> real" where
  "getZeroRate_binary64 c t =
     (case getZeroRate_case c t of
        EmptyCurve \<Rightarrow> 0
      | CaseA \<Rightarrow> snd (last (curveData c))
      | CaseB \<Rightarrow> snd (curveData c ! lower_bound (curveData c) t)
      | CaseC \<Rightarrow>
          (let it = lower_bound (curveData c) t;
               t1 = fst (curveData c ! (it - 1));
               t2 = fst (curveData c ! it);
               r1 = snd (curveData c ! (it - 1));
               r2 = snd (curveData c ! it)
           in round_binary64
                (round_binary64
                   (round_binary64 (round_binary64 (r2 - r1) / round_binary64 (t2 - t1))
                    * round_binary64 (t - t1))
                 + r1)))"

subsection \<open>The bootstrapper\<close>

text \<open>
  \<^verbatim>\<open>const double FIXED_TAU = 0.5;\<close>, declared with the same value in \<^verbatim>\<open>Bootstrapper\<close>
  and in \<^verbatim>\<open>SwapPricer\<close>.
\<close>

definition FIXED_TAU :: real where
  "FIXED_TAU = 0.5"

text \<open>
  \<^verbatim>\<open>class Bootstrapper { vector<SwapQuote> _quotes; }\<close>. The constructor sorts the quotes
  by maturity. \<^verbatim>\<open>std::sort\<close> leaves the order of equal maturities open; the model sorts
  stably, and the statements about \<open>calibrate\<close> hold for every bootstrapper value,
  whatever the order of its quotes.
\<close>

record Bootstrapper =
  quotes :: "SwapQuote list"

definition new_Bootstrapper :: "SwapQuote list \<Rightarrow> Bootstrapper" where
  "new_Bootstrapper qs = \<lparr>quotes = sort_key maturity qs\<rparr>"

text \<open>
  \<^verbatim>\<open>for(int i = 1; i*FIXED_TAU < mat; ++i)
      sumDiscountedCoupons += S * FIXED_TAU * curve.getDiscountFactor(FIXED_TAU*i);\<close>
\<close>

function coupon_loop :: "ZeroCurve \<Rightarrow> real \<Rightarrow> real \<Rightarrow> int \<Rightarrow> real \<Rightarrow> real" where
  "coupon_loop curve S mat i sumDiscountedCoupons =
     (if of_int i * FIXED_TAU < mat
      then coupon_loop curve S mat (i + 1)
             (sumDiscountedCoupons + S * FIXED_TAU * getDiscountFactor curve (FIXED_TAU * of_int i))
      else sumDiscountedCoupons)"
  by pat_completeness auto
termination
proof (relation "measure (\<lambda>(curve :: ZeroCurve, S :: real, mat :: real, i :: int, s :: real). nat (\<lceil>2 * mat\<rceil> - i))")
  show "wf (measure (\<lambda>(curve :: ZeroCurve, S :: real, mat :: real, i :: int, s :: real). nat (\<lceil>2 * mat\<rceil> - i)))"
    by simp
next
  fix curve :: ZeroCurve and S mat s :: real and i :: int
  assume "of_int i * FIXED_TAU < mat"
  then have "of_int i < 2 * mat"
    by (simp add: FIXED_TAU_def)
  then have "i < \<lceil>2 * mat\<rceil>"
    by (simp add: less_ceiling_iff)
  then show "((curve, S, mat, i + 1,
                s + S * FIXED_TAU * getDiscountFactor curve (FIXED_TAU * of_int i)),
              (curve, S, mat, i, s))
             \<in> measure (\<lambda>(curve :: ZeroCurve, S :: real, mat :: real, i :: int, s :: real). nat (\<lceil>2 * mat\<rceil> - i))"
    by simp
qed

declare coupon_loop.simps [simp del]

text \<open>
  The locals of one pass of the loop over the quotes in \<^verbatim>\<open>calibrate\<close>, each as a
  function of what it is computed from.
\<close>

definition sumDiscountedCoupons :: "ZeroCurve \<Rightarrow> real \<Rightarrow> real \<Rightarrow> real" where
  "sumDiscountedCoupons curve mat S = coupon_loop curve S mat 1 0"

definition tau_n :: "real \<Rightarrow> real" where
  "tau_n mat = mat - of_int \<lfloor>2 * mat\<rfloor> / 2"

definition df_n :: "ZeroCurve \<Rightarrow> real \<Rightarrow> real \<Rightarrow> real" where
  "df_n curve mat S = (1 - sumDiscountedCoupons curve mat S) / (1 + tau_n mat * S)"

definition zeroRate :: "ZeroCurve \<Rightarrow> real \<Rightarrow> real \<Rightarrow> real" where
  "zeroRate curve mat S = (if df_n curve mat S > 0 then - ln (df_n curve mat S) / mat else 0)"

text \<open>The body of that loop; \<^verbatim>\<open>continue\<close> leaves the curve as it is.\<close>

definition calibrate_body :: "ZeroCurve \<Rightarrow> SwapQuote \<Rightarrow> ZeroCurve" where
  "calibrate_body curve swap =
     (let mat = maturity swap; S = rate swap in
      if map_count (curveData curve) mat \<noteq> 0 then curve
      else addNode mat (zeroRate curve mat S) curve)"

definition calibrate :: "Bootstrapper \<Rightarrow> ZeroCurve \<Rightarrow> ZeroCurve" where
  "calibrate b initialCurve = foldl calibrate_body initialCurve (quotes b)"

subsection \<open>The swap pricer\<close>

text \<open>
  \<^verbatim>\<open>for(double t=FIXED_TAU; t< maturity ; t+= FIXED_TAU)
      sum+= FIXED_TAU * curve.getDiscountFactor(t);\<close>
\<close>

function annuity_loop :: "ZeroCurve \<Rightarrow> real \<Rightarrow> real \<Rightarrow> real \<Rightarrow> real" where
  "annuity_loop curve mat t sum_acc =
     (if t < mat
      then annuity_loop curve mat (t + FIXED_TAU) (sum_acc + FIXED_TAU * getDiscountFactor curve t)
      else sum_acc)"
  by pat_completeness auto
termination
proof (relation "measure (\<lambda>(curve :: ZeroCurve, mat :: real, t :: real, s :: real). nat \<lceil>2 * (mat - t)\<rceil>)")
  show "wf (measure (\<lambda>(curve :: ZeroCurve, mat :: real, t :: real, s :: real). nat \<lceil>2 * (mat - t)\<rceil>))"
    by simp
next
  fix curve :: ZeroCurve and mat t s :: real
  assume lt: "t < mat"
  have "\<lceil>2 * (mat - (t + FIXED_TAU))\<rceil> = \<lceil>2 * (mat - t) - 1\<rceil>"
    by (simp add: FIXED_TAU_def algebra_simps)
  also have "\<dots> = \<lceil>2 * (mat - t)\<rceil> - 1"
    by (rule ceiling_diff_one)
  finally have step: "\<lceil>2 * (mat - (t + FIXED_TAU))\<rceil> = \<lceil>2 * (mat - t)\<rceil> - 1" .
  from lt have "0 < \<lceil>2 * (mat - t)\<rceil>"
    by (simp add: less_ceiling_iff)
  with step show "((curve, mat, t + FIXED_TAU, s + FIXED_TAU * getDiscountFactor curve t),
                   (curve, mat, t, s))
                  \<in> measure (\<lambda>(curve :: ZeroCurve, mat :: real, t :: real, s :: real). nat \<lceil>2 * (mat - t)\<rceil>)"
    by simp
qed

declare annuity_loop.simps [simp del]

definition last_tau :: "real \<Rightarrow> real" where
  "last_tau mat = mat - of_int \<lfloor>2 * mat\<rfloor> / 2"

definition annuity :: "ZeroCurve \<Rightarrow> real \<Rightarrow> real" where
  "annuity curve mat =
     (let sum_acc = annuity_loop curve mat FIXED_TAU 0
      in sum_acc + last_tau mat * getDiscountFactor curve mat)"

definition calculateFaireRate :: "ZeroCurve \<Rightarrow> real \<Rightarrow> real" where
  "calculateFaireRate curve mat =
     (let A = annuity curve mat;
          DF_end = getDiscountFactor curve mat
      in if A < 1 / 10 ^ 8 then 0 else (1 - DF_end) / A)"

definition priceSwap :: "ZeroCurve \<Rightarrow> real \<Rightarrow> real \<Rightarrow> real" where
  "priceSwap curve mat fixedRate =
     (let pvFixed = fixedRate * annuity curve mat;
          pvFloat = 1 - getDiscountFactor curve mat
      in pvFloat - pvFixed)"

subsection \<open>The formulas of the specification\<close>

text \<open>
  The specification gives the bootstrapping step and the annuity as sums over the coupon
  dates \<open>i \<cdot> \<tau>\<close>, \<open>i \<ge> 1\<close>, \<open>i \<cdot> \<tau> < T\<close>, and the stub period as
  \<open>T - floor (T / \<tau>) \<cdot> \<tau>\<close>. These definitions follow its words; they are compared
  with the loops of the source below.
\<close>

definition spec_coupon_dates :: "real \<Rightarrow> int set" where
  "spec_coupon_dates T = {i. 1 \<le> i \<and> of_int i * FIXED_TAU < T}"

definition spec_tau_last :: "real \<Rightarrow> real" where
  "spec_tau_last T = T - of_int \<lfloor>T / FIXED_TAU\<rfloor> * FIXED_TAU"

definition spec_sumCoupons :: "ZeroCurve \<Rightarrow> real \<Rightarrow> real \<Rightarrow> real" where
  "spec_sumCoupons c T S =
     (\<Sum>i\<in>spec_coupon_dates T. S * FIXED_TAU * getDiscountFactor c (of_int i * FIXED_TAU))"

definition spec_DF_T :: "ZeroCurve \<Rightarrow> real \<Rightarrow> real \<Rightarrow> real" where
  "spec_DF_T c T S = (1 - spec_sumCoupons c T S) / (1 + spec_tau_last T * S)"

definition spec_annuity :: "ZeroCurve \<Rightarrow> real \<Rightarrow> real" where
  "spec_annuity c T =
     (\<Sum>i\<in>spec_coupon_dates T. FIXED_TAU * getDiscountFactor c (of_int i * FIXED_TAU))
     + spec_tau_last T * getDiscountFactor c T"

section \<open>The map operations\<close>

lemma map_count_zero_iff: "map_count xs k = 0 \<longleftrightarrow> k \<notin> fst ` set xs"
  by (induction xs) (auto simp: map_count_def)

lemma map_count_pos_iff: "0 < map_count xs k \<longleftrightarrow> k \<in> fst ` set xs"
  using map_count_zero_iff [of xs k] by auto

lemma keys_map_assign: "fst ` set (map_assign k v xs) = insert k (fst ` set xs)"
  by (induction xs) auto

lemma set_map_assign_new:
  "k \<notin> fst ` set xs \<Longrightarrow> set (map_assign k v xs) = insert (k, v) (set xs)"
  by (induction xs) (auto simp: rev_image_eqI)

lemma map_of_map_assign: "map_of (map_assign k v xs) = (map_of xs)(k \<mapsto> v)"
  by (induction xs) (auto simp: fun_eq_iff)

lemma map_inv_map_assign: "map_inv xs \<Longrightarrow> map_inv (map_assign k v xs)"
  by (induction xs) (auto simp: map_inv_def keys_map_assign)

lemma map_assign_mem: "(k, v) \<in> set (map_assign k v xs)"
  by (induction xs) auto

lemma map_inv_unique:
  assumes inv: "map_inv xs" and v: "(k, v) \<in> set xs" and v': "(k, v') \<in> set xs"
  shows "v = v'"
proof -
  from inv have "distinct (map fst xs)"
    by (simp add: map_inv_def strict_sorted_iff)
  then show ?thesis
    using v v' by (rule eq_key_imp_eq_value)
qed

lemma curve_inv_addNode: "curve_inv c \<Longrightarrow> curve_inv (addNode t r c)"
  by (simp add: curve_inv_def addNode_def map_inv_map_assign)

section \<open>Zero-rate lookup\<close>

lemma lower_bound_split:
  assumes "\<forall>x\<in>set pre. fst x < t" and "t \<le> fst p"
  shows "lower_bound (pre @ p # post) t = length pre"
  using assms by (simp add: lower_bound_def)

lemma map_inv_append_Cons:
  "map_inv (pre @ p # post) \<longleftrightarrow>
     map_inv pre \<and> map_inv post \<and> (\<forall>x\<in>set pre. fst x < fst p) \<and> (\<forall>y\<in>set post. fst p < fst y)
     \<and> (\<forall>x\<in>set pre. \<forall>y\<in>set post. fst x < fst y)"
  by (auto simp: map_inv_def sorted_wrt_append)

lemma getZeroRate_empty: "curveData c = [] \<Longrightarrow> getZeroRate c t = 0"
  by (simp add: getZeroRate_def getZeroRate_case_def)

lemma getZeroRate_at_pillar:
  assumes inv: "curve_inv c" and mem: "(T, r) \<in> set (curveData c)"
  shows "getZeroRate c T = r"
proof -
  from mem obtain pre post where xs: "curveData c = pre @ (T, r) # post"
    by (auto simp: in_set_conv_decomp)
  from inv xs have before: "\<forall>x\<in>set pre. fst x < T"
    by (simp add: curve_inv_def map_inv_append_Cons)
  then have lb: "lower_bound (curveData c) T = length pre"
    unfolding xs by (intro lower_bound_split) simp_all
  show ?thesis
  proof (cases pre rule: rev_cases)
    case Nil
    with xs lb show ?thesis
      by (simp add: getZeroRate_def getZeroRate_case_def)
  next
    case (snoc pre' q)
    with before have "fst q < T" by simp
    with xs lb snoc show ?thesis
      by (simp add: getZeroRate_def getZeroRate_case_def nth_append)
  qed
qed

subsection \<open>The lookup at a stored maturity, in binary64\<close>

lemma round_binary64_eval:
  assumes lo: "2 powr of_int k \<le> \<bar>x\<bar>" and hi: "\<bar>x\<bar> < 2 powr of_int (k + 1)"
  shows "round_binary64 x
    = of_int (round_half_even (x / 2 powr of_int (k - 52))) * 2 powr of_int (k - 52)"
proof -
  have "0 < (2 :: real) powr of_int k"
    by simp
  with lo have pos: "0 < \<bar>x\<bar>"
    by linarith
  then have nz: "x \<noteq> 0"
    by simp
  from pos lo hi have "\<lfloor>log 2 \<bar>x\<bar>\<rfloor> = k"
    by (simp add: floor_log_eq_powr_iff)
  with nz show ?thesis
    by (simp add: round_binary64_def)
qed

lemma round_binary64_literals:
  "round_binary64 (3 / 100) = 1080863910568919 / 2 ^ 55"
  "round_binary64 (1 / 100) = 5764607523034235 / 2 ^ 59"
  using round_binary64_eval [of "- 6" "3 / 100"] round_binary64_eval [of "- 7" "1 / 100"]
  by (simp_all add: powr_neg_numeral round_half_even_def)

lemma round_binary64_steps:
  "round_binary64 (5764607523034235 / 2 ^ 59 - 1080863910568919 / 2 ^ 55)
     = - (2882303761517117 / 2 ^ 57)"
  "round_binary64 (- (2882303761517117 / 2 ^ 57) + 1080863910568919 / 2 ^ 55)
     = 5764607523034236 / 2 ^ 59"
  "round_binary64 (- (2882303761517117 / 2 ^ 57)) = - (2882303761517117 / 2 ^ 57)"
  "round_binary64 (- (2882303761517117 / 2 ^ 56)) = - (2882303761517117 / 2 ^ 56)"
  "round_binary64 1 = 1"
  "round_binary64 (1 / 2) = 1 / 2"
  using round_binary64_eval [of "- 6" "5764607523034235 / 2 ^ 59 - 1080863910568919 / 2 ^ 55"]
    round_binary64_eval [of "- 7" "- (2882303761517117 / 2 ^ 57) + 1080863910568919 / 2 ^ 55"]
    round_binary64_eval [of "- 6" "- (2882303761517117 / 2 ^ 57)"]
    round_binary64_eval [of "- 5" "- (2882303761517117 / 2 ^ 56)"]
    round_binary64_eval [of 0 1]
    round_binary64_eval [of "- 1" "1 / 2"]
  by (simp_all add: powr_neg_numeral round_half_even_def)

lemma getZeroRate_binary64_CaseC:
  assumes "getZeroRate_case \<lparr>curveData = [(t1, r1), (t2, r2)]\<rparr> t = CaseC"
    and "lower_bound [(t1, r1), (t2, r2)] t = 1"
  shows "getZeroRate_binary64 \<lparr>curveData = [(t1, r1), (t2, r2)]\<rparr> t
    = round_binary64
        (round_binary64
           (round_binary64 (round_binary64 (r2 - r1) / round_binary64 (t2 - t1))
            * round_binary64 (t - t1))
         + r1)"
  using assms by (simp add: getZeroRate_binary64_def)

text \<open>
  C3. The claim: at or above the largest stored maturity the lookup returns the largest
  pillar's rate. The source returns the stored rate only for \<open>t\<close> above the largest
  maturity (Case A) or when the curve has a single pillar (Case B). At \<open>t\<close> equal to the
  largest maturity of a curve with two pillars or more, \<open>lower_bound\<close> finds the last
  pillar itself and Case C computes the rate by the interpolation formula. On the curve
  with the pillars \<open>(0.5, 0.03)\<close> and \<open>(1.0, 0.01)\<close>, stored as the binary64 numbers
  nearest to these literals, the lookup at \<open>1.0\<close> gives \<open>5764607523034236 / 2\<^sup>5\<^sup>9\<close>
  (printed \<open>0.010000000000000002\<close>), one unit in the last place above the stored rate
  \<open>5764607523034235 / 2\<^sup>5\<^sup>9\<close>.
\<close>

theorem getZeroRate_binary64_at_largest_maturity:
  "fst (last (curveData \<lparr>curveData = [(1 / 2, 1080863910568919 / 2 ^ 55), (1, 5764607523034235 / 2 ^ 59)]\<rparr>)) = 1 \<and>
   snd (last (curveData \<lparr>curveData = [(1 / 2, 1080863910568919 / 2 ^ 55), (1, 5764607523034235 / 2 ^ 59)]\<rparr>))
     = 5764607523034235 / 2 ^ 59 \<and>
   getZeroRate_binary64
     \<lparr>curveData = [(1 / 2, 1080863910568919 / 2 ^ 55), (1, 5764607523034235 / 2 ^ 59)]\<rparr> 1
     = 5764607523034236 / 2 ^ 59 \<and>
   getZeroRate_binary64
     \<lparr>curveData = [(1 / 2, 1080863910568919 / 2 ^ 55), (1, 5764607523034235 / 2 ^ 59)]\<rparr> 1
     \<noteq> snd (last (curveData
         \<lparr>curveData = [(1 / 2, 1080863910568919 / 2 ^ 55), (1, 5764607523034235 / 2 ^ 59)]\<rparr>))"
proof -
  let ?c = "\<lparr>curveData = [(1 / 2, 1080863910568919 / 2 ^ 55), (1, 5764607523034235 / 2 ^ 59 :: real)]\<rparr>"
  have lb: "lower_bound [(1 / 2, 1080863910568919 / 2 ^ 55), (1, 5764607523034235 / 2 ^ 59 :: real)] 1 = 1"
    by (simp add: lower_bound_def)
  then have "getZeroRate_case ?c 1 = CaseC"
    by (simp add: getZeroRate_case_def)
  from this lb have "getZeroRate_binary64 ?c 1 = 5764607523034236 / 2 ^ 59"
    by (simp add: getZeroRate_binary64_CaseC round_binary64_steps(6)
          round_binary64_steps(1-4) [simplified])
  then show ?thesis
    by simp
qed

text \<open>
  C4. The claim: at a stored maturity the lookup returns exactly the stored rate, not a
  value of the interpolation formula. The source has no branch for an exact match; only
  the smallest pillar is returned as stored (Case B), every other pillar goes through
  the formula of Case C. On the curve with the pillars \<open>(1, 0.03)\<close> and \<open>(2, 0.01)\<close>,
  stored as the binary64 numbers nearest to these literals, the lookup at \<open>2\<close> gives
  \<open>5764607523034236 / 2\<^sup>5\<^sup>9\<close>, which is not the stored rate \<open>5764607523034235 / 2\<^sup>5\<^sup>9\<close>.
\<close>

theorem getZeroRate_binary64_at_pillar:
  "round_binary64 (3 / 100) = 1080863910568919 / 2 ^ 55 \<and>
   round_binary64 (1 / 100) = 5764607523034235 / 2 ^ 59 \<and>
   getZeroRate_binary64
     \<lparr>curveData = [(1, 1080863910568919 / 2 ^ 55), (2, 5764607523034235 / 2 ^ 59)]\<rparr> 2
     = 5764607523034236 / 2 ^ 59 \<and>
   getZeroRate_binary64
     \<lparr>curveData = [(1, 1080863910568919 / 2 ^ 55), (2, 5764607523034235 / 2 ^ 59)]\<rparr> 2
     \<noteq> 5764607523034235 / 2 ^ 59"
proof -
  let ?c = "\<lparr>curveData = [(1, 1080863910568919 / 2 ^ 55), (2, 5764607523034235 / 2 ^ 59 :: real)]\<rparr>"
  have lb: "lower_bound [(1, 1080863910568919 / 2 ^ 55), (2, 5764607523034235 / 2 ^ 59 :: real)] 2 = 1"
    by (simp add: lower_bound_def)
  then have "getZeroRate_case ?c 2 = CaseC"
    by (simp add: getZeroRate_case_def)
  from this lb have val: "getZeroRate_binary64 ?c 2 = 5764607523034236 / 2 ^ 59"
    by (simp add: getZeroRate_binary64_CaseC round_binary64_steps [simplified])
  then have "getZeroRate_binary64 ?c 2 \<noteq> 5764607523034235 / 2 ^ 59"
    by simp
  with val round_binary64_literals show ?thesis
    by (intro conjI)
qed

subsection \<open>Maturities that are not positive\<close>

text \<open>
  C6 says that a maturity \<open>\<le> 0\<close> makes \<open>addNode\<close> and the queries fail with
  \<open>InvalidMaturity\<close>. The source validates nothing and has no error to report:
  \<open>addNode\<close> at maturity \<open>-1\<close> stores the pillar, and the query at \<open>-1\<close> answers.
\<close>

theorem addNode_nonpositive_counterexample:
  "addNode (- 1) (5 / 100) \<lparr>curveData = []\<rparr> = \<lparr>curveData = [(- 1, 5 / 100)]\<rparr> \<and>
   getZeroRate \<lparr>curveData = [(- 1, 5 / 100)]\<rparr> (- 1) = 5 / 100"
  by (simp add: addNode_def getZeroRate_def getZeroRate_case_def lower_bound_def)

text \<open>
  C6, as amended. \<open>addNode\<close> accepts every maturity, positive or not, and reports no
  error: the pillar is inserted or overwritten, every other pillar is kept, and the map
  stays ordered.
\<close>

theorem addNode_total:
  "curve_inv c \<Longrightarrow>
     curve_inv (addNode time r c) \<and>
     map_of (curveData (addNode time r c)) = (map_of (curveData c))(time \<mapsto> r)"
proof -
  assume "curve_inv c"
  then have "curve_inv (addNode time r c)"
    by (rule curve_inv_addNode)
  moreover have "map_of (curveData (addNode time r c)) = (map_of (curveData c))(time \<mapsto> r)"
    by (simp add: addNode_def map_of_map_assign)
  ultimately show ?thesis
    by (rule conjI)
qed

theorem addNode_total_witness:
  "curve_inv \<lparr>curveData = [(1 / 2, 1 / 100)]\<rparr> \<and>
   curve_inv (addNode (- 1) (5 / 100) \<lparr>curveData = [(1 / 2, 1 / 100)]\<rparr>) \<and>
   map_of (curveData (addNode (- 1) (5 / 100) \<lparr>curveData = [(1 / 2, 1 / 100)]\<rparr>)) (- 1) = Some (5 / 100) \<and>
   map_of (curveData (addNode (- 1) (5 / 100) \<lparr>curveData = [(1 / 2, 1 / 100)]\<rparr>)) (1 / 2) = Some (1 / 100)"
proof -
  have inv: "curve_inv \<lparr>curveData = [(1 / 2, 1 / 100)]\<rparr>"
    by (simp add: curve_inv_def map_inv_def)
  from addNode_total [OF inv, of "- 1" "5 / 100"] inv show ?thesis
    by simp
qed

section \<open>What calibrate does to the pillars\<close>

lemma keys_calibrate_body:
  "fst ` set (curveData (calibrate_body c q)) = insert (maturity q) (fst ` set (curveData c))"
  by (auto simp: calibrate_body_def Let_def addNode_def keys_map_assign
        map_count_zero_iff map_count_pos_iff)

lemma set_calibrate_body:
  "set (curveData c) \<subseteq> set (curveData (calibrate_body c q))"
  by (auto simp: calibrate_body_def Let_def addNode_def map_count_zero_iff set_map_assign_new)

lemma curve_inv_calibrate_body: "curve_inv c \<Longrightarrow> curve_inv (calibrate_body c q)"
  by (simp add: calibrate_body_def Let_def curve_inv_addNode)

lemma calibrate_body_skip:
  "maturity q \<in> fst ` set (curveData c) \<Longrightarrow> calibrate_body c q = c"
  by (simp add: calibrate_body_def Let_def map_count_zero_iff)

lemma keys_foldl_calibrate_body:
  "fst ` set (curveData (foldl calibrate_body c qs)) = fst ` set (curveData c) \<union> maturity ` set qs"
  by (induction qs arbitrary: c) (auto simp: keys_calibrate_body)

lemma set_foldl_calibrate_body:
  "set (curveData c) \<subseteq> set (curveData (foldl calibrate_body c qs))"
proof (induction qs arbitrary: c)
  case Nil
  show ?case by simp
next
  case (Cons q qs)
  have "set (curveData c) \<subseteq> set (curveData (calibrate_body c q))"
    by (rule set_calibrate_body)
  also have "\<dots> \<subseteq> set (curveData (foldl calibrate_body (calibrate_body c q) qs))"
    by (rule Cons.IH)
  finally show ?case by simp
qed

lemma curve_inv_foldl_calibrate_body:
  "curve_inv c \<Longrightarrow> curve_inv (foldl calibrate_body c qs)"
  by (induction qs arbitrary: c) (simp_all add: curve_inv_calibrate_body)

lemma foldl_calibrate_body_skip:
  "maturity ` set qs \<subseteq> fst ` set (curveData c) \<Longrightarrow> foldl calibrate_body c qs = c"
  by (induction qs) (simp_all add: calibrate_body_skip)

text \<open>
  C7. Calibrating the calibrated curve again with the same quotes changes nothing: after
  the first run every quote maturity is a pillar, so the second run skips every quote.
  This holds for every seed curve and every quote list.
\<close>

theorem calibrate_idempotent:
  "calibrate b (calibrate b seed) = calibrate b seed"
  unfolding calibrate_def
  by (rule foldl_calibrate_body_skip) (simp add: keys_foldl_calibrate_body)

text \<open>
  C8. \<open>calibrate\<close> takes the seed curve as a value and returns a curve. Every pillar of
  the seed is a pillar of the result with the same rate; the maturities of the result are
  those of the seed and those of the quotes; the result has unique, ascending maturities
  again; and every pillar of the result that is not a pillar of the seed sits at a quote
  maturity that the seed does not have. So no seed pillar is overwritten or removed.
\<close>

theorem calibrate_frame:
  "curve_inv seed \<Longrightarrow>
     curve_inv (calibrate b seed) \<and>
     set (curveData seed) \<subseteq> set (curveData (calibrate b seed)) \<and>
     fst ` set (curveData (calibrate b seed))
       = fst ` set (curveData seed) \<union> maturity ` set (quotes b) \<and>
     (\<forall>t r. (t, r) \<in> set (curveData (calibrate b seed)) \<and> (t, r) \<notin> set (curveData seed) \<longrightarrow>
        t \<in> maturity ` set (quotes b) \<and> t \<notin> fst ` set (curveData seed))"
proof (intro conjI allI impI)
  assume inv: "curve_inv seed"
  show inv': "curve_inv (calibrate b seed)"
    using inv by (simp add: calibrate_def curve_inv_foldl_calibrate_body)
  show sub: "set (curveData seed) \<subseteq> set (curveData (calibrate b seed))"
    by (simp add: calibrate_def set_foldl_calibrate_body)
  show keys: "fst ` set (curveData (calibrate b seed))
       = fst ` set (curveData seed) \<union> maturity ` set (quotes b)"
    by (simp add: calibrate_def keys_foldl_calibrate_body)
  fix t r
  assume new: "(t, r) \<in> set (curveData (calibrate b seed)) \<and> (t, r) \<notin> set (curveData seed)"
  show fresh: "t \<notin> fst ` set (curveData seed)"
  proof
    assume "t \<in> fst ` set (curveData seed)"
    then obtain r' where old: "(t, r') \<in> set (curveData seed)"
      by auto
    with sub have "(t, r') \<in> set (curveData (calibrate b seed))"
      by auto
    with inv' new have "r = r'"
      unfolding curve_inv_def by (blast intro: map_inv_unique)
    with old new show False
      by simp
  qed
  from new have "t \<in> fst ` set (curveData (calibrate b seed))"
    by (auto simp: rev_image_eqI)
  with keys fresh show "t \<in> maturity ` set (quotes b)"
    by auto
qed

theorem calibrate_frame_witness:
  "curve_inv \<lparr>curveData = [(1 / 2, 0)]\<rparr> \<and>
   curve_inv (calibrate (new_Bootstrapper [\<lparr>maturity = 1, rate = 1 / 50\<rparr>])
                \<lparr>curveData = [(1 / 2, 0)]\<rparr>) \<and>
   (1 / 2, 0) \<in> set (curveData (calibrate (new_Bootstrapper [\<lparr>maturity = 1, rate = 1 / 50\<rparr>])
                \<lparr>curveData = [(1 / 2, 0)]\<rparr>)) \<and>
   fst ` set (curveData (calibrate (new_Bootstrapper [\<lparr>maturity = 1, rate = 1 / 50\<rparr>])
                \<lparr>curveData = [(1 / 2, 0)]\<rparr>)) = {1 / 2, 1}"
proof -
  have inv: "curve_inv \<lparr>curveData = [(1 / 2, 0)]\<rparr>"
    by (simp add: curve_inv_def map_inv_def)
  note frame = calibrate_frame [OF inv, of "new_Bootstrapper [\<lparr>maturity = 1, rate = 1 / 50\<rparr>]"]
  from frame have keys: "fst ` set (curveData (calibrate (new_Bootstrapper [\<lparr>maturity = 1, rate = 1 / 50\<rparr>])
                \<lparr>curveData = [(1 / 2, 0)]\<rparr>)) = {1 / 2, 1}"
    by (auto simp: new_Bootstrapper_def)
  from frame have "(1 / 2, 0) \<in> set (curveData (calibrate (new_Bootstrapper [\<lparr>maturity = 1, rate = 1 / 50\<rparr>])
                \<lparr>curveData = [(1 / 2, 0)]\<rparr>))"
    by auto
  with frame inv keys show ?thesis
    by blast
qed

section \<open>The loops as sums over the coupon dates\<close>

lemma ceiling_upto_step:
  "(i :: int) < n \<Longrightarrow> (\<Sum>j\<in>{i..n - 1}. f j) = (f i :: real) + (\<Sum>j\<in>{i + 1..n - 1}. f j)"
proof -
  assume "i < n"
  then have "{i..n - 1} = insert i {i + 1..n - 1}"
    by auto
  then show ?thesis
    by simp
qed

lemma coupon_date_less_iff: "of_int i * FIXED_TAU < T \<longleftrightarrow> i < \<lceil>2 * T\<rceil>"
  by (simp add: FIXED_TAU_def less_ceiling_iff mult.commute)

lemma spec_coupon_dates_eq: "spec_coupon_dates T = {1..\<lceil>2 * T\<rceil> - 1}"
  by (auto simp: spec_coupon_dates_def coupon_date_less_iff)

lemma spec_tau_last_eq: "spec_tau_last T = T - of_int \<lfloor>2 * T\<rfloor> / 2"
proof -
  have "T / FIXED_TAU = 2 * T"
    by (simp add: FIXED_TAU_def)
  then show ?thesis
    by (simp add: spec_tau_last_def FIXED_TAU_def mult.commute)
qed

lemma coupon_loop_sum:
  "coupon_loop c S mat i s =
     s + (\<Sum>j\<in>{i..\<lceil>2 * mat\<rceil> - 1}. S * FIXED_TAU * getDiscountFactor c (FIXED_TAU * of_int j))"
proof (induction c S mat i s rule: coupon_loop.induct)
  case (1 curve S mat i s)
  let ?f = "\<lambda>j :: int. S * FIXED_TAU * getDiscountFactor curve (FIXED_TAU * of_int j)"
  show ?case
  proof (cases "of_int i * FIXED_TAU < mat")
    case True
    then have "i < \<lceil>2 * mat\<rceil>"
      by (simp only: coupon_date_less_iff)
    then have step: "(\<Sum>j\<in>{i..\<lceil>2 * mat\<rceil> - 1}. ?f j) = ?f i + (\<Sum>j\<in>{i + 1..\<lceil>2 * mat\<rceil> - 1}. ?f j)"
      by (rule ceiling_upto_step)
    have "coupon_loop curve S mat i s = coupon_loop curve S mat (i + 1) (s + ?f i)"
      using True by (subst coupon_loop.simps) simp
    also have "\<dots> = s + ?f i + (\<Sum>j\<in>{i + 1..\<lceil>2 * mat\<rceil> - 1}. ?f j)"
      using True by (rule "1.IH")
    finally show ?thesis
      by (simp only: step add.assoc)
  next
    case False
    then have "\<not> i < \<lceil>2 * mat\<rceil>"
      by (simp add: coupon_date_less_iff)
    then have "{i..\<lceil>2 * mat\<rceil> - 1} = {}"
      by auto
    then have "(\<Sum>j\<in>{i..\<lceil>2 * mat\<rceil> - 1}. ?f j) = 0"
      by (simp only: sum.empty)
    moreover have "coupon_loop curve S mat i s = s"
      using False by (subst coupon_loop.simps) simp
    ultimately show ?thesis
      by simp
  qed
qed

lemma sumDiscountedCoupons_spec: "sumDiscountedCoupons c T S = spec_sumCoupons c T S"
  by (simp add: sumDiscountedCoupons_def spec_sumCoupons_def coupon_loop_sum spec_coupon_dates_eq
        mult.commute [of FIXED_TAU])

lemma tau_n_spec: "tau_n T = spec_tau_last T"
  by (simp add: tau_n_def spec_tau_last_eq)

lemma last_tau_spec: "last_tau T = spec_tau_last T"
  by (simp add: last_tau_def spec_tau_last_eq)

lemma df_n_spec: "df_n c T S = spec_DF_T c T S"
  by (simp add: df_n_def spec_DF_T_def sumDiscountedCoupons_spec tau_n_spec)

section \<open>The pricer\<close>

lemma annuity_loop_sum:
  "t = of_int k * FIXED_TAU \<Longrightarrow>
   annuity_loop c mat t s =
     s + (\<Sum>j\<in>{k..\<lceil>2 * mat\<rceil> - 1}. FIXED_TAU * getDiscountFactor c (of_int j * FIXED_TAU))"
proof (induction c mat t s arbitrary: k rule: annuity_loop.induct)
  case (1 curve mat t s)
  let ?f = "\<lambda>j :: int. FIXED_TAU * getDiscountFactor curve (of_int j * FIXED_TAU)"
  note t = \<open>t = of_int k * FIXED_TAU\<close>
  show ?case
  proof (cases "t < mat")
    case True
    with t have "k < \<lceil>2 * mat\<rceil>"
      by (simp only: coupon_date_less_iff)
    then have step: "(\<Sum>j\<in>{k..\<lceil>2 * mat\<rceil> - 1}. ?f j) = ?f k + (\<Sum>j\<in>{k + 1..\<lceil>2 * mat\<rceil> - 1}. ?f j)"
      by (rule ceiling_upto_step)
    from t have next_t: "t + FIXED_TAU = of_int (k + 1) * FIXED_TAU"
      by (simp add: algebra_simps)
    have "annuity_loop curve mat t s =
            annuity_loop curve mat (t + FIXED_TAU) (s + FIXED_TAU * getDiscountFactor curve t)"
      using True by (subst annuity_loop.simps) simp
    also have "\<dots> = s + FIXED_TAU * getDiscountFactor curve t + (\<Sum>j\<in>{k + 1..\<lceil>2 * mat\<rceil> - 1}. ?f j)"
      using True next_t by (rule "1.IH")
    finally show ?thesis
      by (simp only: step add.assoc t)
  next
    case False
    with t have "\<not> k < \<lceil>2 * mat\<rceil>"
      by (simp add: coupon_date_less_iff)
    then have "{k..\<lceil>2 * mat\<rceil> - 1} = {}"
      by auto
    then have "(\<Sum>j\<in>{k..\<lceil>2 * mat\<rceil> - 1}. ?f j) = 0"
      by (simp only: sum.empty)
    moreover have "annuity_loop curve mat t s = s"
      using False by (subst annuity_loop.simps) simp
    ultimately show ?thesis
      by simp
  qed
qed

lemma annuity_spec: "annuity c T = spec_annuity c T"
  using annuity_loop_sum [of FIXED_TAU 1 c T 0]
  by (simp add: annuity_def spec_annuity_def spec_coupon_dates_eq last_tau_spec)

text \<open>
  C9. The fair rate is \<open>(1 - DF(T)) / annuity(curve, T)\<close>, and \<open>0\<close> when the annuity is
  below \<open>10\<^sup>-\<^sup>8\<close>; it is a total function, so it returns in both cases. The annuity it
  divides by is the one of the specification: \<open>\<tau> \<cdot> DF(i \<cdot> \<tau>)\<close> summed over the coupon
  dates before \<open>T\<close>, plus the stub term.
\<close>

theorem calculateFaireRate_contract:
  "calculateFaireRate c T =
     (if annuity c T < 1 / 10 ^ 8 then 0 else (1 - getDiscountFactor c T) / annuity c T) \<and>
   annuity c T = spec_annuity c T"
  by (simp add: calculateFaireRate_def annuity_spec)

text \<open>
  C10. When the annuity is at least \<open>10\<^sup>-\<^sup>8\<close>, the swap priced at the pricer's own fair
  rate has net present value \<open>0\<close>, and at any fixed rate \<open>x\<close> its value is
  \<open>(fairRate - x) \<cdot> annuity\<close>.
\<close>

theorem priceSwap_fair_rate:
  "1 / 10 ^ 8 \<le> annuity c T \<Longrightarrow>
     priceSwap c T (calculateFaireRate c T) = 0 \<and>
     (\<forall>x. priceSwap c T x = (calculateFaireRate c T - x) * annuity c T)"
proof -
  assume ge: "1 / 10 ^ 8 \<le> annuity c T"
  then have pos: "annuity c T \<noteq> 0" and nlt: "\<not> annuity c T < 1 / 10 ^ 8"
    by auto
  from nlt have fair: "calculateFaireRate c T = (1 - getDiscountFactor c T) / annuity c T"
    by (simp add: calculateFaireRate_def)
  have gen: "priceSwap c T x = (calculateFaireRate c T - x) * annuity c T" for x
    using pos by (simp add: priceSwap_def fair field_simps)
  from gen [of "calculateFaireRate c T"] gen show ?thesis
    by simp
qed

lemma getDiscountFactor_single:
  "getDiscountFactor \<lparr>curveData = [(k, r)]\<rparr> t = exp (- r * t)"
  by (simp add: getDiscountFactor_def getZeroRate_def getZeroRate_case_def lower_bound_def)

theorem priceSwap_fair_rate_witness:
  "1 / 10 ^ 8 \<le> annuity \<lparr>curveData = [(1, ln 2)]\<rparr> 1 \<and>
   priceSwap \<lparr>curveData = [(1, ln 2)]\<rparr> 1 (calculateFaireRate \<lparr>curveData = [(1, ln 2)]\<rparr> 1) = 0 \<and>
   priceSwap \<lparr>curveData = [(1, ln 2)]\<rparr> 1 (3 / 100)
     = (calculateFaireRate \<lparr>curveData = [(1, ln 2)]\<rparr> 1 - 3 / 100) * annuity \<lparr>curveData = [(1, ln 2)]\<rparr> 1"
proof -
  let ?c = "\<lparr>curveData = [(1, ln 2 :: real)]\<rparr>"
  have ann: "annuity ?c 1 = 1 / 2 * exp (- ln 2 * (1 / 2))"
    by (simp add: annuity_def last_tau_def annuity_loop.simps FIXED_TAU_def
          getDiscountFactor_single)
  have "exp (- ln 2) \<le> exp (- ln 2 * (1 / 2 :: real))"
    by (simp only: exp_le_cancel_iff) simp
  then have "1 / 2 \<le> exp (- ln 2 * (1 / 2 :: real))"
    by (simp add: exp_minus)
  with ann have ge: "1 / 10 ^ 8 \<le> annuity ?c 1"
    by simp
  from priceSwap_fair_rate [OF ge] ge show ?thesis
    by simp
qed

section \<open>One bootstrapping step\<close>

lemma calibrate_body_new:
  "map_count (curveData c) (maturity q) = 0 \<Longrightarrow>
     calibrate_body c q = addNode (maturity q) (zeroRate c (maturity q) (rate q)) c"
  by (simp add: calibrate_body_def Let_def)

lemma calibrate_split:
  "quotes b = pre @ q # post \<Longrightarrow>
     calibrate b seed
       = calibrate \<lparr>quotes = post\<rparr> (calibrate_body (calibrate \<lparr>quotes = pre\<rparr> seed) q)"
  by (simp add: calibrate_def)

lemma spec_tau_last_grid: "spec_tau_last (of_int k * FIXED_TAU) = 0"
  by (simp add: spec_tau_last_def FIXED_TAU_def)

lemma getDiscountFactor_new_pillar:
  assumes inv: "curve_inv c" and mem: "(T, - ln d / T) \<in> set (curveData c)"
    and T: "T \<noteq> 0" and d: "0 < d"
  shows "getDiscountFactor c T = d"
proof -
  from inv mem have "getZeroRate c T = - ln d / T"
    by (rule getZeroRate_at_pillar)
  with T d show ?thesis
    by (simp add: getDiscountFactor_def)
qed

text \<open>
  C2. For a quote \<open>(T, S)\<close> whose maturity is not yet a pillar, the step stores the
  pillar \<open>(T, -ln DF\<^sub>T / T)\<close> (rate \<open>0\<close> when \<open>DF\<^sub>T\<close> is not positive), where
  \<open>DF\<^sub>T = (1 - sumCoupons) / (1 + \<tau>\<^sub>l\<^sub>a\<^sub>s\<^sub>t \<cdot> S)\<close> is the specification's formula: the sum
  runs over the coupon dates \<open>i \<cdot> \<tau> < T\<close>, \<open>i \<ge> 1\<close>, read from the curve built so far, and
  \<open>\<tau>\<^sub>l\<^sub>a\<^sub>s\<^sub>t = T - floor (T / \<tau>) \<cdot> \<tau>\<close>. The stub length is \<open>0\<close> at every multiple of
  \<open>\<tau>\<close>. When \<open>DF\<^sub>T\<close> is positive, the new curve's discount factor at \<open>T\<close> is \<open>DF\<^sub>T\<close>.
  The two divisions of the step are by \<open>T\<close> and by \<open>1 + \<tau>\<^sub>l\<^sub>a\<^sub>s\<^sub>t \<cdot> S\<close>; the statement is
  for the inputs where neither is zero.
\<close>

theorem calibrate_step_formula:
  "map_count (curveData c) T = 0 \<Longrightarrow> T \<noteq> 0 \<Longrightarrow> 1 + spec_tau_last T * S \<noteq> 0 \<Longrightarrow>
     calibrate_body c \<lparr>maturity = T, rate = S\<rparr>
       = addNode T (if 0 < spec_DF_T c T S then - ln (spec_DF_T c T S) / T else 0) c \<and>
     df_n c T S = spec_DF_T c T S \<and>
     (\<forall>k :: int. spec_tau_last (of_int k * FIXED_TAU) = 0 \<and> tau_n (of_int k * FIXED_TAU) = 0) \<and>
     (curve_inv c \<and> 0 < spec_DF_T c T S \<longrightarrow>
        getDiscountFactor (calibrate_body c \<lparr>maturity = T, rate = S\<rparr>) T = spec_DF_T c T S)"
proof (intro conjI allI impI)
  assume new: "map_count (curveData c) T = 0" and T: "T \<noteq> 0"
  then show body: "calibrate_body c \<lparr>maturity = T, rate = S\<rparr>
       = addNode T (if 0 < spec_DF_T c T S then - ln (spec_DF_T c T S) / T else 0) c"
    by (simp add: calibrate_body_new zeroRate_def df_n_spec)
  show "df_n c T S = spec_DF_T c T S"
    by (rule df_n_spec)
  show "spec_tau_last (of_int k * FIXED_TAU) = 0" for k :: int
    by (rule spec_tau_last_grid)
  show "tau_n (of_int k * FIXED_TAU) = 0" for k :: int
    by (simp add: tau_n_spec spec_tau_last_grid)
  assume "curve_inv c \<and> 0 < spec_DF_T c T S"
  with T have pos: "curve_inv c \<and> T \<noteq> 0 \<and> 0 < spec_DF_T c T S"
    by simp
  then have inv: "curve_inv (addNode T (- ln (spec_DF_T c T S) / T) c)"
    by (simp add: curve_inv_addNode)
  have "(T, - ln (spec_DF_T c T S) / T) \<in> set (curveData (addNode T (- ln (spec_DF_T c T S) / T) c))"
    by (simp add: addNode_def map_assign_mem)
  with inv have "getDiscountFactor (addNode T (- ln (spec_DF_T c T S) / T) c) T = spec_DF_T c T S"
    using pos by (intro getDiscountFactor_new_pillar) simp_all
  with body pos show "getDiscountFactor (calibrate_body c \<lparr>maturity = T, rate = S\<rparr>) T = spec_DF_T c T S"
    by simp
qed

lemma getDiscountFactor_empty:
  "getDiscountFactor \<lparr>curveData = []\<rparr> t = 1"
  by (simp add: getDiscountFactor_def getZeroRate_empty)

theorem calibrate_step_formula_witness:
  "map_count (curveData \<lparr>curveData = [(1 / 2, 0)]\<rparr>) 1 = 0 \<and>
   curve_inv \<lparr>curveData = [(1 / 2, 0)]\<rparr> \<and>
   spec_DF_T \<lparr>curveData = [(1 / 2, 0)]\<rparr> 1 (1 / 50) = 99 / 100 \<and>
   calibrate_body \<lparr>curveData = [(1 / 2, 0)]\<rparr> \<lparr>maturity = 1, rate = 1 / 50\<rparr>
     = \<lparr>curveData = [(1 / 2, 0), (1, - ln (99 / 100))]\<rparr> \<and>
   spec_tau_last 1 = 0 \<and>
   getDiscountFactor (calibrate_body \<lparr>curveData = [(1 / 2, 0)]\<rparr> \<lparr>maturity = 1, rate = 1 / 50\<rparr>) 1
     = 99 / 100"
proof -
  let ?c = "\<lparr>curveData = [(1 / 2, 0 :: real)]\<rparr>"
  have new: "map_count (curveData ?c) 1 = 0"
    by (simp add: map_count_def)
  have inv: "curve_inv ?c"
    by (simp add: curve_inv_def map_inv_def)
  have df: "spec_DF_T ?c 1 (1 / 50) = 99 / 100"
    by (simp add: spec_DF_T_def spec_sumCoupons_def spec_coupon_dates_eq spec_tau_last_def
          FIXED_TAU_def getDiscountFactor_single)
  have T: "(1 :: real) \<noteq> 0"
    by simp
  have den: "1 + spec_tau_last 1 * (1 / 50) \<noteq> 0"
    by (simp add: spec_tau_last_def FIXED_TAU_def)
  note step = calibrate_step_formula [OF new T den, unfolded df]
  from step have body: "calibrate_body ?c \<lparr>maturity = 1, rate = 1 / 50\<rparr>
      = \<lparr>curveData = [(1 / 2, 0), (1, - ln (99 / 100))]\<rparr>"
    by (simp add: addNode_def)
  have tau: "spec_tau_last 1 = 0"
    using step [THEN conjunct2, THEN conjunct2, THEN conjunct1, rule_format, of 2]
    by (simp add: FIXED_TAU_def)
  from inv have "curve_inv ?c \<and> (0 :: real) < 99 / 100"
    by simp
  then have new_df: "getDiscountFactor (calibrate_body ?c \<lparr>maturity = 1, rate = 1 / 50\<rparr>) 1
      = 99 / 100"
    by (rule step [THEN conjunct2, THEN conjunct2, THEN conjunct2, rule_format])
  from new inv df body tau new_df show ?thesis
    by (intro conjI)
qed

text \<open>
  C5 says that a step with \<open>DF\<^sub>T \<le> 0\<close> makes \<open>calibrate\<close> report
  \<open>NonPositiveDiscountFactor\<close>. The source has no error to report: on the empty seed the
  quote \<open>(1.5, 200%)\<close> solves to \<open>DF\<^sub>T = -1\<close>, and \<open>calibrate\<close> returns the curve with
  the pillar \<open>(1.5, 0)\<close>.
\<close>

theorem calibrate_nonpositive_df_counterexample:
  "df_n \<lparr>curveData = []\<rparr> (3 / 2) 2 = - 1 \<and>
   calibrate (new_Bootstrapper [\<lparr>maturity = 3 / 2, rate = 2\<rparr>]) \<lparr>curveData = []\<rparr>
     = \<lparr>curveData = [(3 / 2, 0)]\<rparr>"
proof -
  have df: "df_n \<lparr>curveData = []\<rparr> (3 / 2) 2 = - 1"
    by (simp add: df_n_def sumDiscountedCoupons_def tau_n_def coupon_loop.simps FIXED_TAU_def
          getDiscountFactor_empty)
  then show ?thesis
    by (simp add: new_Bootstrapper_def calibrate_def calibrate_body_def map_count_def
          zeroRate_def addNode_def)
qed

text \<open>
  C5, as amended. When the step for a quote \<open>(T, S)\<close> solves to \<open>DF\<^sub>T \<le> 0\<close> (with a
  denominator \<open>1 + \<tau>\<^sub>n \<cdot> S\<close> other than zero), \<open>calibrate\<close> reports nothing: it stores
  the pillar \<open>(T, 0)\<close> and goes on with the remaining quotes.
\<close>

theorem calibrate_nonpositive_df:
  "quotes b = pre @ q # post \<Longrightarrow>
   map_count (curveData (calibrate \<lparr>quotes = pre\<rparr> seed)) (maturity q) = 0 \<Longrightarrow>
   1 + tau_n (maturity q) * rate q \<noteq> 0 \<Longrightarrow>
   df_n (calibrate \<lparr>quotes = pre\<rparr> seed) (maturity q) (rate q) \<le> 0 \<Longrightarrow>
     calibrate b seed
       = calibrate \<lparr>quotes = post\<rparr> (addNode (maturity q) 0 (calibrate \<lparr>quotes = pre\<rparr> seed))"
  by (simp add: calibrate_split calibrate_body_new zeroRate_def)

theorem calibrate_nonpositive_df_witness:
  "map_count (curveData \<lparr>curveData = [(1 / 2, 0)]\<rparr>) (3 / 2) = 0 \<and>
   df_n \<lparr>curveData = [(1 / 2, 0)]\<rparr> (3 / 2) 2 = - 1 \<and>
   calibrate (new_Bootstrapper [\<lparr>maturity = 3 / 2, rate = 2\<rparr>, \<lparr>maturity = 1 / 2, rate = 1 / 100\<rparr>])
       \<lparr>curveData = [(1 / 2, 0)]\<rparr>
     = \<lparr>curveData = [(1 / 2, 0), (3 / 2, 0)]\<rparr>"
proof -
  let ?seed = "\<lparr>curveData = [(1 / 2, 0 :: real)]\<rparr>"
  let ?p = "\<lparr>maturity = 1 / 2, rate = 1 / 100 :: real\<rparr>"
  let ?q = "\<lparr>maturity = 3 / 2, rate = 2 :: real\<rparr>"
  let ?b = "new_Bootstrapper [?q, ?p]"
  have c1: "calibrate \<lparr>quotes = [?p]\<rparr> ?seed = ?seed"
    by (simp add: calibrate_def calibrate_body_def map_count_def)
  have qs: "quotes ?b = [?p] @ ?q # []"
    by (simp add: new_Bootstrapper_def)
  have count: "map_count (curveData ?seed) (3 / 2) = 0"
    by (simp add: map_count_def)
  then have new: "map_count (curveData (calibrate \<lparr>quotes = [?p]\<rparr> ?seed)) (maturity ?q) = 0"
    by (simp add: c1)
  have den: "1 + tau_n (maturity ?q) * rate ?q \<noteq> 0"
    by (simp add: tau_n_def)
  have df_val: "df_n ?seed (3 / 2) 2 = - 1"
    by (simp add: df_n_def sumDiscountedCoupons_def tau_n_def coupon_loop.simps FIXED_TAU_def
          getDiscountFactor_single)
  then have df: "df_n (calibrate \<lparr>quotes = [?p]\<rparr> ?seed) (maturity ?q) (rate ?q) \<le> 0"
    by (simp add: c1)
  have "calibrate ?b ?seed = calibrate \<lparr>quotes = []\<rparr> (addNode (maturity ?q) 0 ?seed)"
    using calibrate_nonpositive_df [OF qs new den df] by (simp only: c1)
  also have "\<dots> = \<lparr>curveData = [(1 / 2, 0), (3 / 2, 0)]\<rparr>"
    by (simp add: calibrate_def addNode_def)
  finally have "calibrate ?b ?seed = \<lparr>curveData = [(1 / 2, 0), (3 / 2, 0)]\<rparr>" .
  with count df_val show ?thesis
    by (intro conjI)
qed

section \<open>Re-pricing the calibrated quotes\<close>

lemma DF_two_pillars:
  "getDiscountFactor \<lparr>curveData = [(1 / 2, a), (1, b)]\<rparr> (1 / 2) = exp (- a * (1 / 2))"
  "getDiscountFactor \<lparr>curveData = [(1 / 2, a), (1, b)]\<rparr> 1 = exp (- b * 1)"
  "getDiscountFactor \<lparr>curveData = [(1 / 2, a), (1, b)]\<rparr> (3 / 2) = exp (- b * (3 / 2))"
  by (simp_all add: getDiscountFactor_def getZeroRate_def getZeroRate_case_def lower_bound_def)

lemma getZeroRate_three_pillars_mid:
  "getZeroRate \<lparr>curveData = [(1 / 2, a), (1, b), (2, d)]\<rparr> (3 / 2) = (b + d) / 2"
proof -
  have "getZeroRate \<lparr>curveData = [(1 / 2, a), (1, b), (2, d)]\<rparr> (3 / 2)
      = (d - b) / (2 - 1) * (3 / 2 - 1) + b"
    by (simp add: getZeroRate_def getZeroRate_case_def lower_bound_def)
  also have "\<dots> = (b + d) / 2"
    by (simp add: field_simps)
  finally show ?thesis .
qed

lemma DF_three_pillars:
  "getDiscountFactor \<lparr>curveData = [(1 / 2, a), (1, b), (2, d)]\<rparr> (1 / 2) = exp (- a * (1 / 2))"
  "getDiscountFactor \<lparr>curveData = [(1 / 2, a), (1, b), (2, d)]\<rparr> 1 = exp (- b * 1)"
  "getDiscountFactor \<lparr>curveData = [(1 / 2, a), (1, b), (2, d)]\<rparr> (3 / 2)
     = exp (- ((b + d) / 2) * (3 / 2))"
  "getDiscountFactor \<lparr>curveData = [(1 / 2, a), (1, b), (2, d)]\<rparr> 2 = exp (- d * 2)"
     apply (simp add: getDiscountFactor_def getZeroRate_def getZeroRate_case_def lower_bound_def)
    apply (simp add: getDiscountFactor_def getZeroRate_def getZeroRate_case_def lower_bound_def)
   apply (simp only: getDiscountFactor_def Let_def getZeroRate_three_pillars_mid)
  apply (simp add: getDiscountFactor_def getZeroRate_def getZeroRate_case_def lower_bound_def)
  done

lemma df_n_at_1:
  "df_n \<lparr>curveData = [(1 / 2, a)]\<rparr> 1 S = 1 - S * (1 / 2) * exp (- a * (1 / 2))"
  by (simp add: df_n_def sumDiscountedCoupons_def tau_n_def coupon_loop.simps FIXED_TAU_def
        getDiscountFactor_single)

lemma df_n_at_2:
  "df_n \<lparr>curveData = [(1 / 2, a), (1, b)]\<rparr> 2 S
     = 1 - S * (1 / 2) * (exp (- a * (1 / 2)) + exp (- b * 1) + exp (- b * (3 / 2)))"
  by (simp add: df_n_def sumDiscountedCoupons_def tau_n_def coupon_loop.simps FIXED_TAU_def
        DF_two_pillars algebra_simps)

lemma annuity_at_2:
  "annuity \<lparr>curveData = [(1 / 2, a), (1, b), (2, d)]\<rparr> 2
     = 1 / 2 * (exp (- a * (1 / 2)) + exp (- b * 1)
                + exp (- ((b + d) / 2) * (3 / 2)))"
  by (simp add: annuity_def last_tau_def annuity_loop.simps FIXED_TAU_def
        DF_three_pillars algebra_simps)

lemma ln_ratio_bounds:
  "1 / 134 \<le> - ln (133 / 134 :: real)" "- ln (133 / 134 :: real) \<le> 1 / 133"
proof -
  have "ln (133 / 134 :: real) \<le> 133 / 134 - 1"
    by (rule ln_le_minus_one) simp
  then show "1 / 134 \<le> - ln (133 / 134 :: real)"
    by simp
  have "ln (134 / 133 :: real) \<le> 134 / 133 - 1"
    by (rule ln_le_minus_one) simp
  moreover have "ln (134 / 133 :: real) = - ln (133 / 134)"
    by (simp add: ln_div)
  ultimately show "- ln (133 / 134 :: real) \<le> 1 / 133"
    by simp
qed

lemma exp_neg_upper: "0 \<le> x \<Longrightarrow> x \<le> y \<Longrightarrow> exp (- y) \<le> 1 / (1 + x)" for x y :: real
proof -
  assume x: "0 \<le> x" and xy: "x \<le> y"
  have "1 + x \<le> exp x"
    by (rule exp_ge_add_one_self)
  also from xy have "exp x \<le> exp y"
    by simp
  finally have "1 + x \<le> exp y" .
  with x have "1 / exp y \<le> 1 / (1 + x)"
    by (intro divide_left_mono) (simp_all add: add_pos_nonneg)
  then show ?thesis
    by (simp add: exp_minus inverse_eq_divide)
qed

lemma exp_neg_lower: "y \<le> x \<Longrightarrow> 1 - x \<le> exp (- y)" for x y :: real
proof -
  assume "y \<le> x"
  have "1 + (- x) \<le> exp (- x)"
    by (rule exp_ge_add_one_self)
  also from \<open>y \<le> x\<close> have "exp (- x) \<le> exp (- y)"
    by simp
  finally show ?thesis
    by simp
qed

lemma calibrate_two_quotes:
  assumes D1: "df_n \<lparr>curveData = [(1 / 2, a)]\<rparr> 1 S1 = D1" and pos1: "0 < D1"
    and D2: "df_n \<lparr>curveData = [(1 / 2, a), (1, - ln D1)]\<rparr> 2 S2 = D2" and pos2: "0 < D2"
  shows "calibrate (new_Bootstrapper [\<lparr>maturity = 1, rate = S1\<rparr>, \<lparr>maturity = 2, rate = S2\<rparr>])
           \<lparr>curveData = [(1 / 2, a)]\<rparr>
         = \<lparr>curveData = [(1 / 2, a), (1, - ln D1), (2, - ln D2 / 2)]\<rparr>"
proof -
  have c1: "calibrate_body \<lparr>curveData = [(1 / 2, a)]\<rparr> \<lparr>maturity = 1, rate = S1\<rparr>
      = \<lparr>curveData = [(1 / 2, a), (1, - ln D1)]\<rparr>"
    using pos1 by (simp add: calibrate_body_def map_count_def zeroRate_def D1 addNode_def)
  have c2: "calibrate_body \<lparr>curveData = [(1 / 2, a), (1, - ln D1)]\<rparr> \<lparr>maturity = 2, rate = S2\<rparr>
      = \<lparr>curveData = [(1 / 2, a), (1, - ln D1), (2, - ln D2 / 2)]\<rparr>"
    using pos2 by (simp add: calibrate_body_def map_count_def zeroRate_def D2 addNode_def)
  show ?thesis
    by (simp add: calibrate_def new_Bootstrapper_def c1 c2)
qed

lemma priceSwap_at_2:
  "priceSwap \<lparr>curveData = [(1 / 2, a), (1, b), (2, d)]\<rparr> 2 S
     = 1 - exp (- d * 2)
       - S * (1 / 2 * (exp (- a * (1 / 2)) + exp (- b * 1) + exp (- ((b + d) / 2) * (3 / 2))))"
  by (simp only: priceSwap_def Let_def annuity_at_2 DF_three_pillars)

text \<open>
  C1. The claim: after \<open>calibrate\<close>, every quote of the list re-prices to zero within
  \<open>10\<^sup>-\<^sup>9\<close>. Take the seed curve with the one pillar
  \<open>(0.5, -ln (1 / (1 + 0.01 \<cdot> 0.5)) / 0.5)\<close> and the quotes \<open>(1.0, 0.015)\<close> and
  \<open>(2.0, 0.019)\<close>. When the two-year quote is solved, the curve ends at the one-year
  pillar and the coupon at \<open>1.5\<close> is discounted with that pillar's rate, extrapolated
  flat. On the finished curve the rate at \<open>1.5\<close> is interpolated between the one-year and
  the new two-year pillar, so the annuity of the re-pricing is not the one the quote was
  solved with. In exact arithmetic the two-year quote re-prices to more than
  \<open>4 \<cdot> 10\<^sup>-\<^sup>5\<close>.
\<close>

theorem calibrate_spec_scenario_npv:
  "4 / 10 ^ 5 < priceSwap
     (calibrate (new_Bootstrapper [\<lparr>maturity = 1, rate = 15 / 1000\<rparr>, \<lparr>maturity = 2, rate = 19 / 1000\<rparr>])
        \<lparr>curveData = [(1 / 2, - ln (1 / (1 + 1 / 100 * (1 / 2))) / (1 / 2))]\<rparr>)
     2 (19 / 1000) \<and>
   \<not> \<bar>priceSwap
     (calibrate (new_Bootstrapper [\<lparr>maturity = 1, rate = 15 / 1000\<rparr>, \<lparr>maturity = 2, rate = 19 / 1000\<rparr>])
        \<lparr>curveData = [(1 / 2, - ln (1 / (1 + 1 / 100 * (1 / 2))) / (1 / 2))]\<rparr>)
     2 (19 / 1000)\<bar> \<le> 1 / 10 ^ 9"
proof -
  let ?a = "- ln (1 / (1 + 1 / 100 * (1 / 2))) / (1 / 2) :: real"
  let ?b = "- ln (133 / 134 :: real)"
  define E where "E = exp (- ?b * (3 / 2))"
  define D where "D = 1 - 19 / 1000 * (1 / 2) * (200 / 201 + 133 / 134 + E)"
  let ?d = "- ln D / 2"
  let ?seed = "\<lparr>curveData = [(1 / 2, ?a)]\<rparr>"
  let ?c1 = "\<lparr>curveData = [(1 / 2, ?a), (1, ?b)]\<rparr>"
  let ?c2 = "\<lparr>curveData = [(1 / 2, ?a), (1, ?b), (2, ?d)]\<rparr>"
  let ?q1 = "\<lparr>maturity = 1, rate = 15 / 1000 :: real\<rparr>"
  let ?q2 = "\<lparr>maturity = 2, rate = 19 / 1000 :: real\<rparr>"
  have "- ?a * (1 / 2) = ln (200 / 201)"
    by simp
  then have e0: "exp (- ?a * (1 / 2)) = 200 / 201"
    by (simp only: exp_ln_iff)
  have e1: "exp (- ?b * 1) = 133 / 134"
    by simp
  from ln_ratio_bounds(2) have "?b * (3 / 2) \<le> 3 / 266"
    by simp
  then have "1 - 3 / 266 \<le> exp (- (?b * (3 / 2)))"
    by (rule exp_neg_lower)
  then have E_lo: "1 - 3 / 266 \<le> E"
    by (simp add: E_def)
  have E_hi: "E \<le> 1"
    unfolding E_def using ln_ratio_bounds(1) by simp
  from E_hi have D_pos: "0 < D"
    unfolding D_def by simp
  have d1: "df_n ?seed 1 (15 / 1000) = 133 / 134"
    by (simp only: df_n_at_1 e0)
  have d2: "df_n ?c1 2 (19 / 1000) = D"
    by (simp only: df_n_at_2 e0 e1 E_def D_def)
  have final: "calibrate (new_Bootstrapper [?q1, ?q2]) ?seed = ?c2"
    using d1 _ d2 D_pos by (rule calibrate_two_quotes) simp
  define F where "F = exp (- ((?b + ?d) / 2) * (3 / 2))"
  from D_pos have e2: "exp (- ?d * 2) = D"
    by simp
  have "priceSwap ?c2 2 (19 / 1000) = 1 - D - 19 / 1000 * (1 / 2 * (200 / 201 + 133 / 134 + F))"
    by (simp only: priceSwap_at_2 e0 e1 e2 F_def)
  also have "\<dots> = 19 / 2000 * (E - F)"
    unfolding D_def by (simp add: algebra_simps)
  finally have npv: "priceSwap ?c2 2 (19 / 1000) = 19 / 2000 * (E - F)" .
  from D_pos have "ln D \<le> D - 1"
    by (rule ln_le_minus_one)
  moreover from E_lo have "D \<le> 1 - 19 / 2000 * (2976 / 1000)"
    by (simp add: D_def)
  ultimately have "ln D \<le> - (19 / 2000 * (2976 / 1000))"
    by simp
  with ln_ratio_bounds(1) have "16 / 1000 \<le> (?b + ?d) / 2 * (3 / 2)"
    by simp
  then have "exp (- ((?b + ?d) / 2 * (3 / 2))) \<le> 1 / (1 + 16 / 1000)"
    by (rule exp_neg_upper [rotated]) simp
  then have F_hi: "F \<le> 1000 / 1016"
    by (simp add: F_def)
  from E_lo F_hi have "4 / 10 ^ 5 < 19 / 2000 * (E - F)"
    by simp
  then have gap: "4 / 10 ^ 5 < priceSwap ?c2 2 (19 / 1000)"
    by (simp only: npv)
  have "(1 / 10 ^ 9 :: real) < 4 / 10 ^ 5"
    by simp
  with gap have "\<not> \<bar>priceSwap ?c2 2 (19 / 1000)\<bar> \<le> 1 / 10 ^ 9"
    by linarith
  with gap have "4 / 10 ^ 5 < priceSwap ?c2 2 (19 / 1000) \<and>
      \<not> \<bar>priceSwap ?c2 2 (19 / 1000)\<bar> \<le> 1 / 10 ^ 9"
    by (rule conjI)
  then show ?thesis
    unfolding final .
qed

end
